theory Spec2Isabelle
  imports Main "HOL-Library.Product_Lexorder"
begin

section \<open>Data model\<close>

text \<open>
  The three tables of the application, as the route handlers of
  \<^verbatim>\<open>backend/src/routes/todos.ts\<close> and of the files router read and write them
  through the Prisma client. A table is the list of its rows; the primary key of a
  table is the first field of its record.
\<close>

datatype role = USER | ADMIN

datatype user_status = ACTIVE | DISABLED

datatype todo_status = PENDING | IN_PROGRESS | COMPLETED

record user =
  user_id :: string
  user_name :: string
  email :: string
  role :: role
  account_status :: user_status

record todo =
  todo_id :: string
  title :: string
  description :: "string option"
  status :: todo_status
  dueDate :: "int option"
  todo_order :: int
  createdAt :: int
  updatedAt :: int
  createdById :: string
  assignedToId :: string

record todo_file =
  file_id :: string
  filename :: string
  originalName :: string
  file_path :: string
  file_size :: nat
  mimeType :: string
  file_createdAt :: int
  todoId :: string

text \<open>
  The state the handlers act on: the three tables and the storage objects of the
  directory \<^verbatim>\<open>uploads/todos\<close>, each a file name with its bytes.
\<close>

record store =
  users :: "user list"
  todos :: "todo list"
  files :: "todo_file list"
  disk :: "(string \<times> string) list"

text \<open>
  A handler answers with \<^verbatim>\<open>res.status(c).json({ error: m })\<close>, modelled as
  \<open>Failure c m\<close>, or it passes an error to \<^verbatim>\<open>next\<close>, modelled as \<open>Forwarded m\<close>
  (the error-handling middleware that renders it is not part of the routers).
\<close>

datatype failure = Failure nat string | Forwarded string

text \<open>The error responses of the two routers, under the names of the error taxonomy.\<close>

definition NotFoundOrForbidden :: failure where
  "NotFoundOrForbidden = Failure 404 ''Todo not found or access denied''"

definition AccessDenied :: failure where
  "AccessDenied = Failure 403 ''Access denied to some todos''"

definition InvalidAssignee :: failure where
  "InvalidAssignee = Failure 400 ''Assigned user not found or disabled''"

definition FileNotFoundOrForbidden :: failure where
  "FileNotFoundOrForbidden = Failure 404 ''File not found or access denied''"

definition FileNotFoundOnDisk :: failure where
  "FileNotFoundOnDisk = Failure 404 ''File not found on disk''"

definition NoFilesUploaded :: failure where
  "NoFilesUploaded = Failure 400 ''No files uploaded''"

section \<open>Access control\<close>

text \<open>
  The filter \<^verbatim>\<open>OR: [{ assignedToId: userId }, { createdById: userId }]\<close> that every
  todo and file route puts into its query.
\<close>

definition canAccess :: "string \<Rightarrow> todo \<Rightarrow> bool" where
  "canAccess userId t \<longleftrightarrow> assignedToId t = userId \<or> createdById t = userId"

text \<open>The filter \<^verbatim>\<open>{ id, createdById: userId }\<close> of the delete route.\<close>

definition canDelete :: "string \<Rightarrow> todo \<Rightarrow> bool" where
  "canDelete userId t \<longleftrightarrow> createdById t = userId"

section \<open>Todo routes\<close>

subsection \<open>GET /:id\<close>

text \<open>
  \<^verbatim>\<open>prisma.todo.findFirst({ where: { id, OR: [...] } })\<close> is the first row with that
  id that passes the access filter; no row gives the 404 answer. The \<^verbatim>\<open>include\<close> of
  the query joins the creator, the assignee and the files to the row found and does
  not take part in the choice of the row.
\<close>

definition get_todo :: "store \<Rightarrow> user \<Rightarrow> string \<Rightarrow> failure + todo" where
  "get_todo s u ident =
     (let userId = user_id u in
      case find (\<lambda>t. todo_id t = ident \<and> canAccess userId t) (todos s) of
        None \<Rightarrow> Inl NotFoundOrForbidden
      | Some t \<Rightarrow> Inr t)"

subsection \<open>GET /\<close>

text \<open>
  Case-insensitive substring search, the \<^verbatim>\<open>contains\<close> filter with
  \<^verbatim>\<open>mode: 'insensitive'\<close>. Characters are bytes here and only the ASCII letters are
  folded.
\<close>

definition to_lower :: "char \<Rightarrow> char" where
  "to_lower c =
     (let n = (of_char c :: nat) in if 65 \<le> n \<and> n \<le> 90 then char_of (n + 32) else c)"

fun starts_with :: "string \<Rightarrow> string \<Rightarrow> bool" where
  "starts_with [] ys = True"
| "starts_with (x # xs) [] = False"
| "starts_with (x # xs) (y # ys) = (x = y \<and> starts_with xs ys)"

fun contains :: "string \<Rightarrow> string \<Rightarrow> bool" where
  "contains xs [] = (xs = [])"
| "contains xs (y # ys) = (starts_with xs (y # ys) \<or> contains xs ys)"

definition icontains :: "string \<Rightarrow> string \<Rightarrow> bool" where
  "icontains x y = contains (map to_lower x) (map to_lower y)"

text \<open>
  The object \<^verbatim>\<open>whereClause\<close> that the handler builds key by key. The keys of the
  object are conjoined by the query; the list under \<^verbatim>\<open>OR\<close> is a disjunction. An
  assignment to a key that is already set replaces its value.
\<close>

datatype cond =
    AssignedTo string
  | CreatedBy string
  | TitleContains string
  | DescriptionContains string

record where_clause =
  w_assignedToId :: "string option"
  w_createdById :: "string option"
  w_OR :: "cond list option"
  w_status :: "string option"

definition status_name :: "todo_status \<Rightarrow> string" where
  "status_name st =
     (case st of PENDING \<Rightarrow> ''PENDING'' | IN_PROGRESS \<Rightarrow> ''IN_PROGRESS''
      | COMPLETED \<Rightarrow> ''COMPLETED'')"

fun holds :: "cond \<Rightarrow> todo \<Rightarrow> bool" where
  "holds (AssignedTo w) t = (assignedToId t = w)"
| "holds (CreatedBy w) t = (createdById t = w)"
| "holds (TitleContains x) t = icontains x (title t)"
| "holds (DescriptionContains x) t =
     (case description t of None \<Rightarrow> False | Some d \<Rightarrow> icontains x d)"

definition matches :: "where_clause \<Rightarrow> todo \<Rightarrow> bool" where
  "matches w t \<longleftrightarrow>
     (case w_assignedToId w of None \<Rightarrow> True | Some a \<Rightarrow> assignedToId t = a) \<and>
     (case w_createdById w of None \<Rightarrow> True | Some c \<Rightarrow> createdById t = c) \<and>
     (case w_OR w of None \<Rightarrow> True | Some cs \<Rightarrow> list_ex (\<lambda>c. holds c t) cs) \<and>
     (case w_status w of None \<Rightarrow> True | Some n \<Rightarrow> status_name (status t) = n)"

text \<open>
  The query parameters \<^verbatim>\<open>type\<close>, \<^verbatim>\<open>status\<close> and \<^verbatim>\<open>search\<close> are strings or
  absent; the empty string is falsy in the tests \<^verbatim>\<open>status && ...\<close> and
  \<^verbatim>\<open>if (search)\<close>.
\<close>

definition list_where ::
  "string \<Rightarrow> string option \<Rightarrow> string option \<Rightarrow> string option \<Rightarrow> where_clause" where
  "list_where userId type st search =
     (let w0 = \<lparr>w_assignedToId = None, w_createdById = None, w_OR = None, w_status = None\<rparr>;
          w1 = (if type = Some ''assigned'' then w0\<lparr>w_assignedToId := Some userId\<rparr>
                else if type = Some ''created'' then w0\<lparr>w_createdById := Some userId\<rparr>
                else w0\<lparr>w_OR := Some [AssignedTo userId, CreatedBy userId]\<rparr>);
          w2 = (case st of
                  None \<Rightarrow> w1
                | Some n \<Rightarrow>
                    if n \<noteq> [] \<and> n \<in> set [''PENDING'', ''IN_PROGRESS'', ''COMPLETED'']
                    then w1\<lparr>w_status := Some n\<rparr> else w1)
      in (case search of
            None \<Rightarrow> w2
          | Some x \<Rightarrow>
              if x \<noteq> [] then w2\<lparr>w_OR := Some [TitleContains x, DescriptionContains x]\<rparr>
              else w2))"

text \<open>
  \<^verbatim>\<open>findMany\<close> with \<^verbatim>\<open>orderBy: [{ order: 'asc' }, { createdAt: 'desc' }]\<close>: the rows
  that match, sorted on the pair of keys. The joined columns of the \<^verbatim>\<open>include\<close> are
  left out, as in \<open>get_todo\<close>.
\<close>

definition list_todos ::
  "store \<Rightarrow> user \<Rightarrow> string option \<Rightarrow> string option \<Rightarrow> string option \<Rightarrow> todo list" where
  "list_todos s u type st search =
     sort_key (\<lambda>t. (todo_order t, - createdAt t))
       (filter (matches (list_where (user_id u) type st search)) (todos s))"

subsection \<open>POST /\<close>

text \<open>
  The body of a create request after \<^verbatim>\<open>validateTodoCreation\<close>, and a file of
  \<^verbatim>\<open>req.files\<close> as the upload middleware leaves it (already written to storage when
  the handler starts).
\<close>

record create_body =
  cb_title :: string
  cb_description :: "string option"
  cb_assignedToId :: string
  cb_dueDate :: "int option"

record multer_file =
  mf_fieldname :: string
  mf_originalname :: string
  mf_mimetype :: string
  mf_filename :: string
  mf_size :: nat

text \<open>
  What the database fills in when a row is created: the generated ids, the creation
  time and the default values of the columns \<^verbatim>\<open>status\<close> and \<^verbatim>\<open>order\<close>. The schema
  that fixes them is not among the sources, so they are a parameter.
\<close>

record generated =
  gen_todo_id :: string
  gen_file_id :: "nat \<Rightarrow> string"
  gen_status :: todo_status
  gen_order :: int
  gen_now :: int

definition file_rows ::
  "generated \<Rightarrow> string \<Rightarrow> string \<Rightarrow> multer_file list \<Rightarrow> todo_file list" where
  "file_rows g dir tid fs =
     map (\<lambda>(k, f).
       \<lparr>file_id = gen_file_id g k, filename = mf_filename f,
        originalName = mf_originalname f, file_path = dir @ mf_filename f,
        file_size = mf_size f, mimeType = mf_mimetype f,
        file_createdAt = gen_now g, todoId = tid\<rparr>) (enumerate 0 fs)"

definition create_todo ::
  "store \<Rightarrow> user \<Rightarrow> create_body \<Rightarrow> multer_file list \<Rightarrow> generated \<Rightarrow> (failure + todo) \<times> store"
  where
  "create_todo s u body reqFiles g =
     (let createdById = user_id u in
      case find (\<lambda>x. user_id x = cb_assignedToId body) (users s) of
        None \<Rightarrow> (Inl InvalidAssignee, s)
      | Some assignedUser \<Rightarrow>
          if account_status assignedUser = DISABLED then (Inl InvalidAssignee, s)
          else
            let todo = \<lparr>todo_id = gen_todo_id g, title = cb_title body,
                         description = cb_description body, status = gen_status g,
                         dueDate = cb_dueDate body, todo_order = gen_order g,
                         createdAt = gen_now g, updatedAt = gen_now g,
                         createdById = createdById,
                         assignedToId = cb_assignedToId body\<rparr>;
                filesData = file_rows g ''/uploads/'' (todo_id todo) reqFiles
            in (Inr todo, s\<lparr>todos := todos s @ [todo], files := files s @ filesData\<rparr>))"

subsection \<open>PUT /:id\<close>

text \<open>
  The body of an update request after \<^verbatim>\<open>validateTodoUpdate\<close>. \<open>None\<close> is a field
  that is \<^verbatim>\<open>undefined\<close>. A description may be supplied as \<^verbatim>\<open>null\<close>, and a falsy due
  date clears the column; both are \<open>Some None\<close>.
\<close>

record update_body =
  ub_title :: "string option"
  ub_description :: "string option option"
  ub_status :: "todo_status option"
  ub_dueDate :: "int option option"
  ub_order :: "int option"
  ub_assignedToId :: "string option"

text \<open>
  \<^verbatim>\<open>prisma.todo.update({ where: { id }, data })\<close> writes the columns that \<^verbatim>\<open>data\<close>
  holds and leaves the others, except for the column \<^verbatim>\<open>updatedAt\<close>, which the schema
  keeps and every write of the row sets to the time of the write.
\<close>

definition apply_data :: "update_body \<Rightarrow> int \<Rightarrow> todo \<Rightarrow> todo" where
  "apply_data d now t =
     t\<lparr>title := (case ub_title d of None \<Rightarrow> title t | Some x \<Rightarrow> x),
       description := (case ub_description d of None \<Rightarrow> description t | Some x \<Rightarrow> x),
       status := (case ub_status d of None \<Rightarrow> status t | Some x \<Rightarrow> x),
       dueDate := (case ub_dueDate d of None \<Rightarrow> dueDate t | Some x \<Rightarrow> x),
       todo_order := (case ub_order d of None \<Rightarrow> todo_order t | Some x \<Rightarrow> x),
       assignedToId := (case ub_assignedToId d of None \<Rightarrow> assignedToId t | Some x \<Rightarrow> x),
       updatedAt := now\<rparr>"

definition update_row :: "string \<Rightarrow> (todo \<Rightarrow> todo) \<Rightarrow> todo list \<Rightarrow> todo list" where
  "update_row ident f rows = map (\<lambda>t. if todo_id t = ident then f t else t) rows"

definition update_todo ::
  "store \<Rightarrow> user \<Rightarrow> string \<Rightarrow> update_body \<Rightarrow> int \<Rightarrow> (failure + todo) \<times> store" where
  "update_todo s u ident body now =
     (let userId = user_id u in
      case find (\<lambda>t. todo_id t = ident \<and> canAccess userId t) (todos s) of
        None \<Rightarrow> (Inl NotFoundOrForbidden, s)
      | Some existingTodo \<Rightarrow>
          let updateData = body\<lparr>ub_assignedToId := None\<rparr>;
              write = (\<lambda>d. (Inr (apply_data d now existingTodo),
                             s\<lparr>todos := update_row ident (apply_data d now) (todos s)\<rparr>))
          in (case ub_assignedToId body of
                None \<Rightarrow> write updateData
              | Some a \<Rightarrow>
                  (case find (\<lambda>x. user_id x = a) (users s) of
                     None \<Rightarrow> (Inl InvalidAssignee, s)
                   | Some assignedUser \<Rightarrow>
                       if account_status assignedUser = DISABLED
                       then (Inl InvalidAssignee, s)
                       else write (updateData\<lparr>ub_assignedToId := Some a\<rparr>))))"

subsection \<open>PATCH /reorder\<close>

record todo_update =
  upd_id :: string
  upd_order :: int

datatype reorder_body = NotAnArray | Array "todo_update list"

text \<open>
  \<^verbatim>\<open>prisma.$transaction(updatePromises)\<close>: the updates run in the order of the list,
  and the transaction as a whole is rolled back (\<open>None\<close>) when one of them finds no
  row with its id.
\<close>

fun run_updates :: "todo_update list \<Rightarrow> int \<Rightarrow> todo list \<Rightarrow> todo list option" where
  "run_updates [] now rows = Some rows"
| "run_updates (x # xs) now rows =
     (if list_ex (\<lambda>t. todo_id t = upd_id x) rows
      then run_updates xs now
             (update_row (upd_id x) (\<lambda>t. t\<lparr>todo_order := upd_order x, updatedAt := now\<rparr>) rows)
      else None)"

definition reorder ::
  "store \<Rightarrow> user \<Rightarrow> reorder_body \<Rightarrow> int \<Rightarrow> (failure + string) \<times> store" where
  "reorder s u body now =
     (let userId = user_id u in
      case body of
        NotAnArray \<Rightarrow> (Inl (Failure 400 ''todoUpdates must be an array''), s)
      | Array todoUpdates \<Rightarrow>
          let todoIds = map upd_id todoUpdates;
              userTodos = filter (\<lambda>t. todo_id t \<in> set todoIds \<and> canAccess userId t) (todos s)
          in if length userTodos \<noteq> length todoIds then (Inl AccessDenied, s)
             else (case run_updates todoUpdates now (todos s) of
                     None \<Rightarrow> (Inl (Forwarded ''Record to update not found''), s)
                   | Some rows \<Rightarrow> (Inr ''Todo order updated successfully'', s\<lparr>todos := rows\<rparr>)))"

subsection \<open>DELETE /:id\<close>

text \<open>
  Modelled from the spec: the relation between the tables of files and of todos, which
  the Prisma schema declares and the sources do not contain. The spec has the deletion
  of a todo cascade to its file records, so the rows of the deleted todo leave the
  table with it.
\<close>

definition cascade_files :: "string \<Rightarrow> todo_file list \<Rightarrow> todo_file list" where
  "cascade_files ident rows = filter (\<lambda>f. todoId f \<noteq> ident) rows"

definition delete_todo :: "store \<Rightarrow> user \<Rightarrow> string \<Rightarrow> (failure + string) \<times> store" where
  "delete_todo s u ident =
     (let userId = user_id u in
      case find (\<lambda>t. todo_id t = ident \<and> canDelete userId t) (todos s) of
        None \<Rightarrow> (Inl NotFoundOrForbidden, s)
      | Some todo \<Rightarrow>
          (Inr ''Todo deleted successfully'',
           s\<lparr>todos := filter (\<lambda>t. todo_id t \<noteq> ident) (todos s),
             files := cascade_files ident (files s)\<rparr>))"

section \<open>File routes\<close>

subsection \<open>Storage\<close>

definition disk_write :: "string \<Rightarrow> string \<Rightarrow> (string \<times> string) list \<Rightarrow> (string \<times> string) list"
  where
  "disk_write n bytes d = (n, bytes) # filter (\<lambda>e. fst e \<noteq> n) d"

subsection \<open>The upload middleware\<close>

text \<open>
  A file part of a multipart request, and the options the router gives to multer:
  the size limit \<^verbatim>\<open>parseInt(process.env.MAX_FILE_SIZE!) || 10485760\<close> (the parsed
  variable is \<open>None\<close> when \<^verbatim>\<open>parseInt\<close> yields NaN; NaN and 0 are falsy), the file
  filter, and the file name chosen by the disk storage.
\<close>

record upload_part =
  part_fieldname :: string
  part_originalname :: string
  part_mimetype :: string
  part_bytes :: string

definition max_file_size :: "int option \<Rightarrow> int" where
  "max_file_size env =
     (case env of None \<Rightarrow> 10485760 | Some n \<Rightarrow> if n = 0 then 10485760 else n)"

text \<open>
  \<^verbatim>\<open>path.extname\<close> on a name without directory separators: the part of the name from
  its last dot on, and the empty string when the name has no dot, when its only dot is
  its first character, and for the name of two dots.
\<close>

definition extname :: "string \<Rightarrow> string" where
  "extname p =
     (let ext = rev (takeWhile (\<lambda>c. c \<noteq> CHR ''.'') (rev p));
          stem = take (length p - Suc (length ext)) p
      in if CHR ''.'' \<notin> set p \<or> stem = [] \<or> (stem = ''.'' \<and> ext = []) then []
         else CHR ''.'' # ext)"

text \<open>
  \<^verbatim>\<open>test\<close> of a regular expression that is an alternation of literal strings: one
  of the alternatives occurs in the subject.
\<close>

definition test_any :: "string list \<Rightarrow> string \<Rightarrow> bool" where
  "test_any alternatives x = list_ex (\<lambda>a. contains a x) alternatives"

definition allowedTypes :: "string list" where
  "allowedTypes = [''jpeg'', ''jpg'', ''png'', ''gif'', ''pdf'', ''doc'', ''docx'', ''txt'',
                   ''zip'', ''rar'', ''xlsx'', ''xls'', ''ppt'', ''pptx'']"

definition fileFilter :: "upload_part \<Rightarrow> bool" where
  "fileFilter file =
     (let extname = test_any allowedTypes (map to_lower (extname (part_originalname file)));
          mimetype = test_any [''image/'', ''application/'', ''text/''] (part_mimetype file)
      in mimetype \<and> extname)"

definition sanitize :: "char \<Rightarrow> char" where
  "sanitize c =
     (let n = (of_char c :: nat)
      in if (97 \<le> n \<and> n \<le> 122) \<or> (65 \<le> n \<and> n \<le> 90) \<or> (48 \<le> n \<and> n \<le> 57)
            \<or> c = CHR ''.'' \<or> c = CHR ''-''
         then c else CHR ''_'')"

definition storage_filename :: "string \<Rightarrow> upload_part \<Rightarrow> string" where
  "storage_filename uniqueSuffix file =
     uniqueSuffix @ ''-'' @ map sanitize (part_originalname file)"

text \<open>
  \<^verbatim>\<open>upload.array('files', 5)\<close>. Multer takes the file parts in the order of the
  request. A part under another field name, or a sixth file, is an unexpected file; a
  part the file filter refuses ends the request with an error as well. Of the bytes
  of a part the parser lets through at most as many as the size limit, and it reports
  the limit as soon as the bytes let through are as many as the limit: a part of
  exactly the limit is refused like a longer one. Under a negative limit no byte is let
  through and the limit is never reported, so the part is stored empty and accepted.
  (A limit of 0 does not arise, \<open>max_file_size\<close> replaces it.) On an error multer
  removes every file it has stored for the request, the truncated one included, and
  passes the error on; the route handler does not run. All this is the behaviour of
  the multer library, which the router relies on and does not repeat. The argument
  \<open>sfx\<close> gives the unique prefix
  (\<^verbatim>\<open>Date.now() + '-' + Math.round(Math.random() * 1E9)\<close>) of the k-th stored file.
\<close>

definition removeUploadedFiles ::
  "multer_file list \<Rightarrow> (string \<times> string) list \<Rightarrow> (string \<times> string) list" where
  "removeUploadedFiles uploaded d = filter (\<lambda>e. fst e \<notin> set (map mf_filename uploaded)) d"

definition stored_file :: "upload_part \<Rightarrow> string \<Rightarrow> string \<Rightarrow> multer_file" where
  "stored_file p name bytes =
     \<lparr>mf_fieldname = part_fieldname p, mf_originalname = part_originalname p,
      mf_mimetype = part_mimetype p, mf_filename = name, mf_size = length bytes\<rparr>"

fun multer_array ::
  "(nat \<Rightarrow> string) \<Rightarrow> int option \<Rightarrow> nat \<Rightarrow> upload_part list \<Rightarrow> multer_file list \<Rightarrow>
   (string \<times> string) list \<Rightarrow> (string + multer_file list) \<times> (string \<times> string) list" where
  "multer_array sfx env filesLeft [] uploaded d = (Inr uploaded, d)"
| "multer_array sfx env filesLeft (p # ps) uploaded d =
     (if part_fieldname p \<noteq> ''files'' \<or> filesLeft = 0
      then (Inl ''LIMIT_UNEXPECTED_FILE'', removeUploadedFiles uploaded d)
      else if \<not> fileFilter p
      then (Inl ''File type not allowed'', removeUploadedFiles uploaded d)
      else
        let limit = max_file_size env;
            name = storage_filename (sfx (length uploaded)) p;
            bytes = take (nat limit) (part_bytes p)
        in if 0 \<le> limit \<and> limit \<le> int (length (part_bytes p))
           then (Inl ''LIMIT_FILE_SIZE'',
                 removeUploadedFiles (uploaded @ [stored_file p name bytes])
                   (disk_write name bytes d))
           else multer_array sfx env (filesLeft - 1) ps
                  (uploaded @ [stored_file p name bytes]) (disk_write name bytes d))"

subsection \<open>POST /upload/:todoId\<close>

definition upload_handler ::
  "store \<Rightarrow> user \<Rightarrow> string \<Rightarrow> multer_file list \<Rightarrow> generated \<Rightarrow>
   (failure + todo_file list) \<times> store" where
  "upload_handler s u ident reqFiles g =
     (let userId = user_id u in
      case find (\<lambda>t. todo_id t = ident \<and> canAccess userId t) (todos s) of
        None \<Rightarrow> (Inl NotFoundOrForbidden, s)
      | Some todo \<Rightarrow>
          if reqFiles = [] then (Inl NoFilesUploaded, s)
          else let rows = file_rows g ''/uploads/todos/'' ident reqFiles
               in (Inr rows, s\<lparr>files := files s @ rows\<rparr>))"

text \<open>The route: the middleware first, the handler only when it reports no error.\<close>

definition upload_files ::
  "store \<Rightarrow> user \<Rightarrow> string \<Rightarrow> upload_part list \<Rightarrow> int option \<Rightarrow> (nat \<Rightarrow> string) \<Rightarrow>
   generated \<Rightarrow> (failure + todo_file list) \<times> store" where
  "upload_files s u ident parts env sfx g =
     (case multer_array sfx env 5 parts [] (disk s) of
        (Inl e, d) \<Rightarrow> (Inl (Forwarded e), s\<lparr>disk := d\<rparr>)
      | (Inr reqFiles, d) \<Rightarrow> upload_handler (s\<lparr>disk := d\<rparr>) u ident reqFiles g)"

subsection \<open>GET /download/:id\<close>

text \<open>
  The answer of a download: the two headers and the bytes streamed from the storage
  object. The query finds the file by id under the condition that its todo passes the
  access filter.
\<close>

record download =
  content_disposition :: string
  content_type :: string
  streamed :: string

definition download_file :: "store \<Rightarrow> user \<Rightarrow> string \<Rightarrow> failure + download" where
  "download_file s u ident =
     (let userId = user_id u in
      case find (\<lambda>f. file_id f = ident \<and>
                      list_ex (\<lambda>t. todo_id t = todoId f \<and> canAccess userId t) (todos s))
             (files s) of
        None \<Rightarrow> Inl FileNotFoundOrForbidden
      | Some file \<Rightarrow>
          (case map_of (disk s) (filename file) of
             None \<Rightarrow> Inl FileNotFoundOnDisk
           | Some bytes \<Rightarrow>
               Inr \<lparr>content_disposition =
                      ''attachment; filename='' @ [CHR 0x22] @ originalName file @ [CHR 0x22],
                    content_type = mimeType file, streamed = bytes\<rparr>))"

section \<open>Example data\<close>

text \<open>
  A small store on which the theorems below are instantiated: three active users, one
  of them an administrator, one disabled user, two todos of alice (the first assigned
  to bob) and two attachments of the first todo, of which only one has its storage
  object.
\<close>

definition alice :: user where
  "alice = \<lparr>user_id = ''u1'', user_name = ''Alice'', email = ''alice@example.com'',
            role = USER, account_status = ACTIVE\<rparr>"

definition bob :: user where
  "bob = \<lparr>user_id = ''u2'', user_name = ''Bob'', email = ''bob@example.com'',
          role = USER, account_status = ACTIVE\<rparr>"

definition carol :: user where
  "carol = \<lparr>user_id = ''u3'', user_name = ''Carol'', email = ''carol@example.com'',
            role = ADMIN, account_status = ACTIVE\<rparr>"

definition dave :: user where
  "dave = \<lparr>user_id = ''u4'', user_name = ''Dave'', email = ''dave@example.com'',
           role = USER, account_status = DISABLED\<rparr>"

definition milk :: todo where
  "milk = \<lparr>todo_id = ''t1'', title = ''Buy milk'', description = None, status = PENDING,
           dueDate = Some 100, todo_order = 2, createdAt = 10, updatedAt = 10,
           createdById = ''u1'', assignedToId = ''u2''\<rparr>"

definition rent :: todo where
  "rent = \<lparr>todo_id = ''t2'', title = ''Pay rent'', description = Some ''Before Friday'',
           status = IN_PROGRESS, dueDate = None, todo_order = 1, createdAt = 20,
           updatedAt = 20, createdById = ''u1'', assignedToId = ''u1''\<rparr>"

definition receipt :: todo_file where
  "receipt = \<lparr>file_id = ''f1'', filename = ''1-receipt.txt'', originalName = ''receipt.txt'',
              file_path = ''/uploads/todos/1-receipt.txt'', file_size = 5,
              mimeType = ''text/plain'', file_createdAt = 11, todoId = ''t1''\<rparr>"

definition label :: todo_file where
  "label = \<lparr>file_id = ''f2'', filename = ''2-label.png'', originalName = ''label.png'',
            file_path = ''/uploads/todos/2-label.png'', file_size = 3,
            mimeType = ''image/png'', file_createdAt = 12, todoId = ''t1''\<rparr>"

definition demo :: store where
  "demo = \<lparr>users = [alice, bob, carol, dave], todos = [milk, rent],
            files = [receipt, label], disk = [(''1-receipt.txt'', ''2.50 '')]\<rparr>"

text \<open>
  Parts of upload requests: three files the filter accepts, of 3, 10 and 2 bytes, and an
  executable, which it refuses; the ids and times the database generates; the prefixes
  the disk storage draws.
\<close>

definition memo :: upload_part where
  "memo = \<lparr>part_fieldname = ''files'', part_originalname = ''note.txt'',
           part_mimetype = ''text/plain'', part_bytes = ''abc''\<rparr>"

definition photo :: upload_part where
  "photo = \<lparr>part_fieldname = ''files'', part_originalname = ''photo.png'',
            part_mimetype = ''image/png'', part_bytes = ''0123456789''\<rparr>"

definition plan :: upload_part where
  "plan = \<lparr>part_fieldname = ''files'', part_originalname = ''plan.pdf'',
           part_mimetype = ''application/pdf'', part_bytes = ''xy''\<rparr>"

definition tool :: upload_part where
  "tool = \<lparr>part_fieldname = ''files'', part_originalname = ''tool.exe'',
           part_mimetype = ''application/octet-stream'', part_bytes = ''xy''\<rparr>"

definition fresh :: generated where
  "fresh = \<lparr>gen_todo_id = ''t3'', gen_file_id = (\<lambda>k. ''f'' @ replicate (Suc k) CHR ''x''),
            gen_status = PENDING, gen_order = 0, gen_now = 50\<rparr>"

definition prefixes :: "nat \<Rightarrow> string" where
  "prefixes k = ''100-'' @ replicate (Suc k) CHR ''7''"

lemmas demo_defs =
  demo_def alice_def bob_def carol_def dave_def milk_def rent_def receipt_def label_def

section \<open>Properties\<close>

lemma find_by_key:
  assumes "distinct (map key xs)" and "x \<in> set xs"
  shows "find (\<lambda>y. key y = key x \<and> P y) xs = (if P x then Some x else None)"
  using assms
proof (induction xs)
  case Nil
  then show ?case by simp
next
  case (Cons y ys)
  show ?case
  proof (cases "y = x")
    case True
    with Cons.prems have "key x \<notin> key ` set ys" by simp
    then have "find (\<lambda>z. key z = key x \<and> P z) ys = None"
      unfolding find_None_iff by (metis imageI)
    with True show ?thesis by simp
  next
    case False
    with Cons.prems have in_ys: "x \<in> set ys" and d: "distinct (map key ys)"
      by simp_all
    from Cons.prems in_ys have "key y \<noteq> key x" by auto
    with Cons.IH [OF d in_ys] show ?thesis by simp
  qed
qed

text \<open>
  C1. In a table whose ids are unique, reading a todo \<open>T\<close> by its id returns \<open>T\<close>
  exactly when the caller is the creator or the assignee of \<open>T\<close>; every other caller
  gets the merged 404 answer, and the role of the caller plays no part: an ADMIN who
  is neither creator nor assignee is refused like anybody else.
\<close>

theorem get_todo_iff_creator_or_assignee:
  assumes "distinct (map todo_id (todos s))" and "T \<in> set (todos s)"
  shows "(canAccess (user_id U) T \<longleftrightarrow> user_id U = createdById T \<or> user_id U = assignedToId T)
       \<and> (get_todo s U (todo_id T) = Inr T \<longleftrightarrow>
            user_id U = createdById T \<or> user_id U = assignedToId T)
       \<and> (user_id U \<noteq> createdById T \<and> user_id U \<noteq> assignedToId T \<longrightarrow>
            get_todo s (U\<lparr>role := ADMIN\<rparr>) (todo_id T) = Inl NotFoundOrForbidden
          \<and> get_todo s (U\<lparr>role := USER\<rparr>) (todo_id T) = Inl NotFoundOrForbidden)"
proof -
  have "find (\<lambda>t. todo_id t = todo_id T \<and> canAccess w t) (todos s)
          = (if canAccess w T then Some T else None)" for w
    using assms by (rule find_by_key)
  then show ?thesis
    by (auto simp: get_todo_def canAccess_def split: if_splits)
qed

theorem get_todo_iff_creator_or_assignee_witness:
  "distinct (map todo_id (todos demo)) \<and> milk \<in> set (todos demo)
   \<and> user_id carol \<noteq> createdById milk \<and> user_id carol \<noteq> assignedToId milk
   \<and> get_todo demo carol (todo_id milk) = Inl NotFoundOrForbidden
   \<and> get_todo demo carol (todo_id milk) \<noteq> Inr milk"
proof -
  have d: "distinct (map todo_id (todos demo))" and m: "milk \<in> set (todos demo)"
    by (simp_all add: demo_defs)
  have c: "user_id carol \<noteq> createdById milk \<and> user_id carol \<noteq> assignedToId milk"
    and r: "carol\<lparr>role := ADMIN\<rparr> = carol"
    by (simp_all add: demo_defs)
  from get_todo_iff_creator_or_assignee [OF d m, of carol] c r d m
  show ?thesis by simp
qed

subsection \<open>Reordering\<close>

text \<open>
  The query of the reorder route returns each matching row once, so the number of rows
  it finds is the number of distinct ids of the request that name a row the caller may
  access.
\<close>

lemma matching_rows_le:
  assumes "distinct (map key rows)"
  shows "length (filter (\<lambda>t. key t \<in> A \<and> P t) rows)
           = card {k \<in> A. \<exists>t \<in> set rows. key t = k \<and> P t}"
proof -
  let ?F = "filter (\<lambda>t. key t \<in> A \<and> P t) rows"
  from assms have "distinct (map key ?F)" by (rule distinct_map_filter)
  then have "length ?F = card (set (map key ?F))"
    by (metis distinct_card length_map)
  also have "set (map key ?F) = {k \<in> A. \<exists>t \<in> set rows. key t = k \<and> P t}"
    by auto
  finally show ?thesis .
qed

lemma reorder_count_mismatch:
  "length (filter (\<lambda>t. todo_id t \<in> set (map upd_id todoUpdates) \<and> canAccess (user_id u) t) (todos s))
     \<noteq> length todoUpdates
   \<Longrightarrow> reorder s u (Array todoUpdates) now = (Inl AccessDenied, s)"
  by (simp add: reorder_def Let_def)

text \<open>
  C2. When one id of a reorder request names no todo that the caller can access (a todo
  of somebody else, or no todo at all), the request is answered with the 403
  AccessDenied response and the store is returned as it was: no row changes its order,
  the accessible rows of the request included.
\<close>

theorem reorder_inaccessible_id_rejects_batch:
  assumes "distinct (map todo_id (todos s))"
    and "x \<in> set todoUpdates"
    and "\<not> (\<exists>t \<in> set (todos s). todo_id t = upd_id x \<and> canAccess (user_id u) t)"
  shows "reorder s u (Array todoUpdates) now = (Inl AccessDenied, s)
       \<and> map todo_order (todos (snd (reorder s u (Array todoUpdates) now)))
           = map todo_order (todos s)"
proof -
  let ?ids = "set (map upd_id todoUpdates)"
  let ?ok = "{k \<in> ?ids. \<exists>t \<in> set (todos s). todo_id t = k \<and> canAccess (user_id u) t}"
  from assms(2) have "upd_id x \<in> ?ids" by simp
  with assms(3) have "?ok \<subset> ?ids" by blast
  then have "card ?ok < card ?ids" by (simp add: psubset_card_mono)
  also have "card ?ids \<le> length todoUpdates"
    by (metis card_length length_map)
  finally have "length (filter (\<lambda>t. todo_id t \<in> ?ids \<and> canAccess (user_id u) t) (todos s))
                  \<noteq> length todoUpdates"
    using matching_rows_le [OF assms(1), of ?ids "canAccess (user_id u)"] by simp
  then have "reorder s u (Array todoUpdates) now = (Inl AccessDenied, s)"
    by (rule reorder_count_mismatch)
  then show ?thesis by simp
qed

theorem reorder_inaccessible_id_rejects_batch_witness:
  "distinct (map todo_id (todos demo))
   \<and> \<lparr>upd_id = ''t2'', upd_order = 0\<rparr>
        \<in> set [\<lparr>upd_id = ''t1'', upd_order = 7\<rparr>, \<lparr>upd_id = ''t2'', upd_order = 0\<rparr>]
   \<and> \<not> (\<exists>t \<in> set (todos demo). todo_id t = ''t2'' \<and> canAccess (user_id bob) t)
   \<and> (\<exists>t \<in> set (todos demo). todo_id t = ''t1'' \<and> canAccess (user_id bob) t)
   \<and> reorder demo bob
        (Array [\<lparr>upd_id = ''t1'', upd_order = 7\<rparr>, \<lparr>upd_id = ''t2'', upd_order = 0\<rparr>]) 50
       = (Inl AccessDenied, demo)"
proof -
  let ?x = "\<lparr>upd_id = ''t2'', upd_order = 0\<rparr>"
  let ?req = "[\<lparr>upd_id = ''t1'', upd_order = 7\<rparr>, ?x]"
  have d: "distinct (map todo_id (todos demo))" by (simp add: demo_defs)
  have m: "?x \<in> set ?req" by simp
  have n: "\<not> (\<exists>t \<in> set (todos demo). todo_id t = upd_id ?x \<and> canAccess (user_id bob) t)"
    by (simp add: demo_defs canAccess_def)
  have a: "\<exists>t \<in> set (todos demo). todo_id t = ''t1'' \<and> canAccess (user_id bob) t"
    by (simp add: demo_defs canAccess_def)
  from reorder_inaccessible_id_rejects_batch [OF d m n, of 50] d m n a
  show ?thesis by simp
qed

text \<open>
  C9. A reorder request that names some todo twice is answered with the 403 AccessDenied
  response and changes nothing, whoever sends it and whatever it may access: the rows
  found are at most as many as the distinct ids of the request, which are fewer than
  its entries.
\<close>

theorem reorder_duplicate_id_rejects_batch:
  assumes "distinct (map todo_id (todos s))"
    and "\<not> distinct (map upd_id todoUpdates)"
  shows "reorder s u (Array todoUpdates) now = (Inl AccessDenied, s)
       \<and> map todo_order (todos (snd (reorder s u (Array todoUpdates) now)))
           = map todo_order (todos s)"
proof -
  let ?ids = "set (map upd_id todoUpdates)"
  let ?ok = "{k \<in> ?ids. \<exists>t \<in> set (todos s). todo_id t = k \<and> canAccess (user_id u) t}"
  have "card ?ok \<le> card ?ids" by (rule card_mono) auto
  also from assms(2) have "card ?ids < length todoUpdates"
    by (metis card_distinct card_length length_map le_neq_implies_less)
  finally have "length (filter (\<lambda>t. todo_id t \<in> ?ids \<and> canAccess (user_id u) t) (todos s))
                  \<noteq> length todoUpdates"
    using matching_rows_le [OF assms(1), of ?ids "canAccess (user_id u)"] by simp
  then have "reorder s u (Array todoUpdates) now = (Inl AccessDenied, s)"
    by (rule reorder_count_mismatch)
  then show ?thesis by simp
qed

theorem reorder_duplicate_id_rejects_batch_witness:
  "distinct (map todo_id (todos demo))
   \<and> \<not> distinct (map upd_id [\<lparr>upd_id = ''t1'', upd_order = 5\<rparr>, \<lparr>upd_id = ''t1'', upd_order = 6\<rparr>])
   \<and> (\<exists>t \<in> set (todos demo). todo_id t = ''t1'' \<and> canAccess (user_id alice) t)
   \<and> reorder demo alice
        (Array [\<lparr>upd_id = ''t1'', upd_order = 5\<rparr>, \<lparr>upd_id = ''t1'', upd_order = 6\<rparr>]) 50
       = (Inl AccessDenied, demo)"
proof -
  let ?req = "[\<lparr>upd_id = ''t1'', upd_order = 5\<rparr>, \<lparr>upd_id = ''t1'', upd_order = 6\<rparr>]"
  have d: "distinct (map todo_id (todos demo))" by (simp add: demo_defs)
  have n: "\<not> distinct (map upd_id ?req)" by simp
  have a: "\<exists>t \<in> set (todos demo). todo_id t = ''t1'' \<and> canAccess (user_id alice) t"
    by (simp add: demo_defs canAccess_def)
  from reorder_duplicate_id_rejects_batch [OF d n, of alice 50] d n a
  show ?thesis by simp
qed

subsection \<open>Listing\<close>

text \<open>
  C10. A status filter that is none of PENDING, IN_PROGRESS and COMPLETED raises no
  error: the handler leaves it out of the query, and the answer is the one of the same
  request without a status filter.
\<close>

theorem list_ignores_unknown_status:
  assumes "n \<notin> {''PENDING'', ''IN_PROGRESS'', ''COMPLETED''}"
  shows "list_todos s u type (Some n) search = list_todos s u type None search"
  using assms by (simp add: list_todos_def list_where_def)

theorem list_ignores_unknown_status_witness:
  "''DONE'' \<notin> {''PENDING'', ''IN_PROGRESS'', ''COMPLETED''}
   \<and> list_todos demo alice None (Some ''DONE'') None = list_todos demo alice None None None
   \<and> list_todos demo alice None None None = [rent, milk]
   \<and> list_todos demo alice None (Some ''PENDING'') None = [milk]"
proof -
  have h: "''DONE'' \<notin> {''PENDING'', ''IN_PROGRESS'', ''COMPLETED''}" by simp
  have a: "list_todos demo alice None None None = [rent, milk]" by code_simp
  have b: "list_todos demo alice None (Some ''PENDING'') None = [milk]" by code_simp
  from list_ignores_unknown_status [OF h, of demo alice None None] h a b
  show ?thesis by simp
qed

text \<open>
  Without a search text, and with the scope \<^verbatim>\<open>assigned\<close> or \<^verbatim>\<open>created\<close> whatever
  the search, a listing holds only rows of the table that the caller can access, and
  it holds a row as often as the table does.
\<close>

lemma list_restricted_to_caller:
  assumes "search = None \<or> search = Some [] \<or> type = Some ''assigned'' \<or> type = Some ''created''"
    and "t \<in> set (list_todos s u type st search)"
  shows "t \<in> set (todos s) \<and> canAccess (user_id u) t"
  using assms
  by (auto simp: list_todos_def list_where_def matches_def canAccess_def Let_def
           split: option.splits if_splits)

lemma list_once:
  "distinct (todos s) \<Longrightarrow> distinct (list_todos s u type st search)"
  by (simp add: list_todos_def)

text \<open>
  C3. The claim that a listing holds only todos the caller can access does not hold of
  the code when a search text comes with the scope \<^verbatim>\<open>all\<close>: the assignment of the
  search filter to the key \<^verbatim>\<open>OR\<close> replaces the creator-or-assignee filter stored under
  the same key. Carol is neither creator nor assignee of the todo "Pay rent" and is
  refused when she reads it by id, yet her search for "RENT" lists it.
\<close>

theorem list_search_returns_inaccessible_todo:
  "list_todos demo carol None None (Some ''RENT'') = [rent]
   \<and> \<not> canAccess (user_id carol) rent
   \<and> get_todo demo carol (todo_id rent) = Inl NotFoundOrForbidden"
  by code_simp

subsection \<open>Deleting\<close>

text \<open>
  C4, as the code has it. In a table whose ids are unique, deleting a todo \<open>T\<close> by its
  id succeeds exactly for the creator of \<open>T\<close>: the row of \<open>T\<close> leaves the table of
  todos and the file records of \<open>T\<close> leave the table of files. For every other caller,
  the assignee included, the answer is the merged 404 response (not the 403 one), and
  the store is returned as it was.
\<close>

theorem delete_todo_creator_only:
  assumes "distinct (map todo_id (todos s))" and "T \<in> set (todos s)"
  shows "(user_id U = createdById T \<longrightarrow>
            delete_todo s U (todo_id T) =
              (Inr ''Todo deleted successfully'',
               s\<lparr>todos := filter (\<lambda>t. todo_id t \<noteq> todo_id T) (todos s),
                 files := filter (\<lambda>f. todoId f \<noteq> todo_id T) (files s)\<rparr>))
       \<and> (user_id U \<noteq> createdById T \<longrightarrow>
            delete_todo s U (todo_id T) = (Inl NotFoundOrForbidden, s))"
proof -
  have "find (\<lambda>t. todo_id t = todo_id T \<and> canDelete (user_id U) t) (todos s)
          = (if canDelete (user_id U) T then Some T else None)"
    using assms by (rule find_by_key)
  then show ?thesis
    by (auto simp: delete_todo_def canDelete_def cascade_files_def)
qed

theorem delete_todo_creator_only_witness:
  "distinct (map todo_id (todos demo)) \<and> milk \<in> set (todos demo)
   \<and> user_id alice = createdById milk
   \<and> fst (delete_todo demo alice (todo_id milk)) = Inr ''Todo deleted successfully''
   \<and> todos (snd (delete_todo demo alice (todo_id milk))) = [rent]
   \<and> files (snd (delete_todo demo alice (todo_id milk))) = []
   \<and> user_id bob \<noteq> createdById milk
   \<and> delete_todo demo bob (todo_id milk) = (Inl NotFoundOrForbidden, demo)"
proof -
  have d: "distinct (map todo_id (todos demo))" and m: "milk \<in> set (todos demo)"
    by (simp_all add: demo_defs)
  have a: "user_id alice = createdById milk" and b: "user_id bob \<noteq> createdById milk"
    by (simp_all add: demo_defs)
  have t: "filter (\<lambda>t. todo_id t \<noteq> todo_id milk) (todos demo) = [rent]"
    and f: "filter (\<lambda>f. todoId f \<noteq> todo_id milk) (files demo) = []"
    by (simp_all add: demo_defs)
  from delete_todo_creator_only [OF d m, of alice] delete_todo_creator_only [OF d m, of bob]
    d m a b t f
  show ?thesis by simp
qed

text \<open>
  The claim as stated fails for the assignee: bob is the assignee and not the creator
  of the todo "Buy milk", and his delete request is answered with the 404 response
  "Todo not found or access denied", which is not the AccessDenied response.
\<close>

theorem delete_todo_assignee_counterexample:
  "assignedToId milk = user_id bob \<and> createdById milk \<noteq> user_id bob
   \<and> fst (delete_todo demo bob (todo_id milk)) = Inl (Failure 404 ''Todo not found or access denied'')
   \<and> fst (delete_todo demo bob (todo_id milk)) \<noteq> Inl AccessDenied"
  by code_simp

subsection \<open>The assignee check\<close>

text \<open>
  C5, as the code has it. When the assignee id of a request names no user with status
  ACTIVE, a create request is answered with InvalidAssignee and so is an update
  request of a caller who can access the addressed todo; an update request of a caller
  who cannot is answered with the merged 404 response before the assignee is looked at.
  In all three cases the store is returned as it was.
\<close>

theorem invalid_assignee_leaves_store_unchanged:
  assumes "\<not> (\<exists>a \<in> set (users s). user_id a = x \<and> account_status a = ACTIVE)"
  shows "(cb_assignedToId body = x \<longrightarrow>
            create_todo s u body reqFiles g = (Inl InvalidAssignee, s))
       \<and> (ub_assignedToId ub = Some x \<longrightarrow>
            (list_ex (\<lambda>t. todo_id t = ident \<and> canAccess (user_id u) t) (todos s) \<longrightarrow>
               update_todo s u ident ub now = (Inl InvalidAssignee, s))
          \<and> (\<not> list_ex (\<lambda>t. todo_id t = ident \<and> canAccess (user_id u) t) (todos s) \<longrightarrow>
               update_todo s u ident ub now = (Inl NotFoundOrForbidden, s)))"
proof -
  have rejected: "(case find (\<lambda>a. user_id a = x) (users s) of
                     None \<Rightarrow> True | Some a \<Rightarrow> account_status a = DISABLED)"
  proof (cases "find (\<lambda>a. user_id a = x) (users s)")
    case None
    then show ?thesis by simp
  next
    case (Some a)
    then have "a \<in> set (users s)" and "user_id a = x"
      by (auto simp: find_Some_iff)
    with assms have "account_status a \<noteq> ACTIVE" by blast
    then have "account_status a = DISABLED" by (cases "account_status a") simp_all
    with Some show ?thesis by simp
  qed
  have found: "list_ex P xs \<longleftrightarrow> find P xs \<noteq> None" for P :: "todo \<Rightarrow> bool" and xs
    by (auto simp: list_ex_iff find_None_iff)
  from rejected show ?thesis
    by (auto simp: create_todo_def update_todo_def found Let_def split: option.splits)
qed

theorem invalid_assignee_leaves_store_unchanged_witness:
  "\<not> (\<exists>a \<in> set (users demo). user_id a = ''u4'' \<and> account_status a = ACTIVE)
   \<and> create_todo demo bob
        \<lparr>cb_title = ''Call'', cb_description = None, cb_assignedToId = ''u4'',
         cb_dueDate = None\<rparr> []
        \<lparr>gen_todo_id = ''t3'', gen_file_id = (\<lambda>k. ''f9''), gen_status = PENDING,
         gen_order = 0, gen_now = 50\<rparr>
       = (Inl InvalidAssignee, demo)
   \<and> list_ex (\<lambda>t. todo_id t = ''t1'' \<and> canAccess (user_id bob) t) (todos demo)
   \<and> update_todo demo bob ''t1''
        \<lparr>ub_title = Some ''Buy oat milk'', ub_description = None, ub_status = None,
         ub_dueDate = None, ub_order = None, ub_assignedToId = Some ''u4''\<rparr> 50
       = (Inl InvalidAssignee, demo)
   \<and> \<not> list_ex (\<lambda>t. todo_id t = ''t1'' \<and> canAccess (user_id carol) t) (todos demo)
   \<and> update_todo demo carol ''t1''
        \<lparr>ub_title = Some ''Buy oat milk'', ub_description = None, ub_status = None,
         ub_dueDate = None, ub_order = None, ub_assignedToId = Some ''u4''\<rparr> 50
       = (Inl NotFoundOrForbidden, demo)"
proof -
  let ?body = "\<lparr>cb_title = ''Call'', cb_description = None, cb_assignedToId = ''u4'',
                cb_dueDate = None\<rparr>"
  let ?g = "\<lparr>gen_todo_id = ''t3'', gen_file_id = (\<lambda>k. ''f9''), gen_status = PENDING,
             gen_order = 0, gen_now = 50\<rparr>"
  let ?ub = "\<lparr>ub_title = Some ''Buy oat milk'', ub_description = None, ub_status = None,
              ub_dueDate = None, ub_order = None, ub_assignedToId = Some ''u4''\<rparr>"
  have n: "\<not> (\<exists>a \<in> set (users demo). user_id a = ''u4'' \<and> account_status a = ACTIVE)"
    by (simp add: demo_defs)
  have b: "list_ex (\<lambda>t. todo_id t = ''t1'' \<and> canAccess (user_id bob) t) (todos demo)"
    and c: "\<not> list_ex (\<lambda>t. todo_id t = ''t1'' \<and> canAccess (user_id carol) t) (todos demo)"
    by (simp_all add: demo_defs canAccess_def)
  from invalid_assignee_leaves_store_unchanged
         [OF n, where body = ?body and ub = ?ub and ident = "''t1''" and u = bob]
    invalid_assignee_leaves_store_unchanged
         [OF n, where body = ?body and ub = ?ub and ident = "''t1''" and u = carol]
    n b c
  show ?thesis by simp
qed

text \<open>
  The claim as stated fails for an update by a caller without access: carol can access
  the todo "Buy milk" neither as creator nor as assignee, and her request to assign it
  to the disabled user dave is answered with the 404 response, not with InvalidAssignee.
\<close>

theorem invalid_assignee_without_access_counterexample:
  "\<not> (\<exists>a \<in> set (users demo). user_id a = ''u4'' \<and> account_status a = ACTIVE)
   \<and> fst (update_todo demo carol ''t1''
        \<lparr>ub_title = None, ub_description = None, ub_status = None, ub_dueDate = None,
         ub_order = None, ub_assignedToId = Some ''u4''\<rparr> 50)
       = Inl (Failure 404 ''Todo not found or access denied'')
   \<and> fst (update_todo demo carol ''t1''
        \<lparr>ub_title = None, ub_description = None, ub_status = None, ub_dueDate = None,
         ub_order = None, ub_assignedToId = Some ''u4''\<rparr> 50) \<noteq> Inl InvalidAssignee"
  by code_simp

subsection \<open>Updating\<close>

lemma find_update_row:
  assumes "distinct (map todo_id rows)" and "T \<in> set rows" and "todo_id (f T) = todo_id T"
  shows "find (\<lambda>t. todo_id t = todo_id T) (update_row (todo_id T) f rows) = Some (f T)"
  using assms
proof (induction rows)
  case Nil
  then show ?case by simp
next
  case (Cons r rows)
  show ?case
  proof (cases "r = T")
    case True
    with Cons.prems(3) show ?thesis by (simp add: update_row_def)
  next
    case False
    with Cons.prems have in_rows: "T \<in> set rows" and d: "distinct (map todo_id rows)"
      by simp_all
    from Cons.prems in_rows have "todo_id r \<noteq> todo_id T" by auto
    with Cons.IH [OF d in_rows Cons.prems(3)] show ?thesis
      by (simp add: update_row_def)
  qed
qed

lemma apply_data_id: "todo_id (apply_data d now t) = todo_id t"
  by (simp add: apply_data_def)

lemma update_todo_result:
  assumes "find (\<lambda>t. todo_id t = ident \<and> canAccess (user_id U) t) (todos s) = Some T"
  shows "update_todo s U ident body now =
           (Inr (apply_data body now T),
            s\<lparr>todos := update_row ident (apply_data body now) (todos s)\<rparr>)
       \<or> (ub_assignedToId body \<noteq> None \<and>
            update_todo s U ident body now = (Inl InvalidAssignee, s))"
proof -
  have same: "b\<lparr>ub_assignedToId := v\<rparr> = b" if "ub_assignedToId b = v" for b :: update_body and v
    using that by simp
  from assms show ?thesis
    by (cases "ub_assignedToId body")
       (simp_all add: update_todo_def Let_def same split: option.splits)
qed

text \<open>
  C7. In a table whose ids are unique, after an update request of a caller who can
  access the todo \<open>T\<close>, the row with the id of \<open>T\<close> has, in every field the request
  does not supply, the value it had before; this holds whether the request succeeds or
  is refused for its assignee. A request that supplies no assignee succeeds and
  answers with the row as it is afterwards.
\<close>

theorem update_changes_only_supplied_fields:
  assumes "distinct (map todo_id (todos s))" and "T \<in> set (todos s)"
    and "canAccess (user_id U) T"
    and "update_todo s U (todo_id T) body now = (r, s')"
  shows "\<exists>T'. find (\<lambda>t. todo_id t = todo_id T) (todos s') = Some T'
            \<and> (ub_title body = None \<longrightarrow> title T' = title T)
            \<and> (ub_description body = None \<longrightarrow> description T' = description T)
            \<and> (ub_status body = None \<longrightarrow> status T' = status T)
            \<and> (ub_dueDate body = None \<longrightarrow> dueDate T' = dueDate T)
            \<and> (ub_order body = None \<longrightarrow> todo_order T' = todo_order T)
            \<and> (ub_assignedToId body = None \<longrightarrow> assignedToId T' = assignedToId T \<and> r = Inr T')"
proof -
  have ex: "find (\<lambda>t. todo_id t = todo_id T \<and> canAccess (user_id U) t) (todos s) = Some T"
    using find_by_key [OF assms(1,2), of "canAccess (user_id U)"] assms(3) by simp
  have same: "find (\<lambda>t. todo_id t = todo_id T) (todos s) = Some T"
    using find_by_key [OF assms(1,2), of "\<lambda>t. True"] by simp
  have new: "find (\<lambda>t. todo_id t = todo_id T)
               (update_row (todo_id T) (apply_data body now) (todos s))
               = Some (apply_data body now T)"
    using assms(1,2) apply_data_id by (rule find_update_row)
  from update_todo_result [OF ex, of body now] assms(4) consider
      (rejected) "s' = s" "ub_assignedToId body \<noteq> None"
    | (written) "s' = s\<lparr>todos := update_row (todo_id T) (apply_data body now) (todos s)\<rparr>"
        "r = Inr (apply_data body now T)"
    by auto
  then show ?thesis
  proof cases
    case rejected
    with same show ?thesis by auto
  next
    case written
    with new have "find (\<lambda>t. todo_id t = todo_id T) (todos s') = Some (apply_data body now T)"
      by simp
    with written(2) show ?thesis
      by (simp add: apply_data_def)
  qed
qed

theorem update_changes_only_supplied_fields_witness:
  "distinct (map todo_id (todos demo)) \<and> milk \<in> set (todos demo)
   \<and> canAccess (user_id bob) milk
   \<and> update_todo demo bob (todo_id milk)
        \<lparr>ub_title = None, ub_description = None, ub_status = Some IN_PROGRESS,
         ub_dueDate = None, ub_order = None, ub_assignedToId = None\<rparr> 50
       = (Inr (milk\<lparr>status := IN_PROGRESS, updatedAt := 50\<rparr>),
          demo\<lparr>todos := [milk\<lparr>status := IN_PROGRESS, updatedAt := 50\<rparr>, rent]\<rparr>)
   \<and> (\<exists>T'. find (\<lambda>t. todo_id t = todo_id milk)
               [milk\<lparr>status := IN_PROGRESS, updatedAt := 50\<rparr>, rent] = Some T'
          \<and> title T' = title milk \<and> description T' = description milk
          \<and> dueDate T' = dueDate milk \<and> todo_order T' = todo_order milk
          \<and> assignedToId T' = assignedToId milk)"
proof -
  let ?body = "\<lparr>ub_title = None, ub_description = None, ub_status = Some IN_PROGRESS,
                ub_dueDate = None, ub_order = None, ub_assignedToId = None\<rparr>"
  let ?T = "milk\<lparr>status := IN_PROGRESS, updatedAt := 50\<rparr>"
  have d: "distinct (map todo_id (todos demo))" and m: "milk \<in> set (todos demo)"
    and a: "canAccess (user_id bob) milk"
    by (simp_all add: demo_defs canAccess_def)
  have u: "update_todo demo bob (todo_id milk) ?body 50
             = (Inr ?T, demo\<lparr>todos := [?T, rent]\<rparr>)"
    by (simp add: update_todo_def update_row_def apply_data_def canAccess_def Let_def demo_defs)
  from update_changes_only_supplied_fields [OF d m a u] d m a u
  show ?thesis by simp
qed

subsection \<open>Downloading\<close>

text \<open>
  C8. In a table of files whose ids are unique, when the caller can access the todo of
  a file record and no storage object has the file name of the record, the download
  is answered with the 404 response "File not found on disk"; nothing is streamed.
\<close>

theorem download_missing_storage_object:
  assumes "distinct (map file_id (files s))" and "F \<in> set (files s)"
    and "T \<in> set (todos s)" and "todo_id T = todoId F" and "canAccess (user_id U) T"
    and "filename F \<notin> fst ` set (disk s)"
  shows "download_file s U (file_id F) = Inl FileNotFoundOnDisk"
proof -
  let ?ok = "\<lambda>f. list_ex (\<lambda>t. todo_id t = todoId f \<and> canAccess (user_id U) t) (todos s)"
  from assms(3-5) have "?ok F" by (auto simp: list_ex_iff)
  with find_by_key [OF assms(1,2), of ?ok]
  have "find (\<lambda>f. file_id f = file_id F \<and> ?ok f) (files s) = Some F" by simp
  moreover from assms(6) have "map_of (disk s) (filename F) = None"
    by (simp add: map_of_eq_None_iff)
  ultimately show ?thesis by (simp add: download_file_def)
qed

theorem download_missing_storage_object_witness:
  "distinct (map file_id (files demo)) \<and> label \<in> set (files demo)
   \<and> milk \<in> set (todos demo) \<and> todo_id milk = todoId label
   \<and> canAccess (user_id bob) milk \<and> filename label \<notin> fst ` set (disk demo)
   \<and> download_file demo bob (file_id label) = Inl (Failure 404 ''File not found on disk'')"
proof -
  have d: "distinct (map file_id (files demo))" and f: "label \<in> set (files demo)"
    and m: "milk \<in> set (todos demo)" and p: "todo_id milk = todoId label"
    and a: "canAccess (user_id bob) milk" and n: "filename label \<notin> fst ` set (disk demo)"
    by (simp_all add: demo_defs canAccess_def)
  from download_missing_storage_object [OF d f m p a n] d f m p a n
  show ?thesis by (simp add: FileNotFoundOnDisk_def)
qed

subsection \<open>Uploading\<close>

text \<open>
  When the middleware ends with an error, the storage holds nothing that was not there
  before: every object it keeps is an object of the storage as it was before the
  request or carries the name of a file stored for the request, and the latter are
  removed.
\<close>

lemma multer_array_error_disk:
  assumes "\<forall>e \<in> set d. e \<in> set d0 \<or> fst e \<in> mf_filename ` set uploaded"
    and "multer_array sfx env filesLeft ps uploaded d = (Inl err, d')"
  shows "set d' \<subseteq> set d0"
  using assms
proof (induction ps arbitrary: filesLeft uploaded d)
  case Nil
  then show ?case by simp
next
  case (Cons p ps)
  let ?name = "storage_filename (sfx (length uploaded)) p"
  let ?bytes = "take (nat (max_file_size env)) (part_bytes p)"
  have removed: "set (removeUploadedFiles uploaded d) \<subseteq> set d0"
    using Cons.prems(1) by (auto simp: removeUploadedFiles_def)
  have written: "\<forall>e \<in> set (disk_write ?name ?bytes d).
                   e \<in> set d0 \<or> fst e \<in> mf_filename ` set (uploaded @ [stored_file p ?name ?bytes])"
    using Cons.prems(1) by (auto simp: disk_write_def stored_file_def)
  then have truncated: "set (removeUploadedFiles (uploaded @ [stored_file p ?name ?bytes])
                          (disk_write ?name ?bytes d)) \<subseteq> set d0"
    by (auto simp: removeUploadedFiles_def)
  show ?case
  proof (cases "part_fieldname p \<noteq> ''files'' \<or> filesLeft = 0 \<or> \<not> fileFilter p")
    case True
    with Cons.prems(2) removed show ?thesis by (auto split: if_splits)
  next
    case accepted: False
    show ?thesis
    proof (cases "0 \<le> max_file_size env \<and> max_file_size env \<le> int (length (part_bytes p))")
      case True
      with accepted Cons.prems(2) truncated show ?thesis by (simp add: Let_def)
    next
      case False
      with accepted Cons.prems(2)
      have "multer_array sfx env (filesLeft - 1) ps
              (uploaded @ [stored_file p ?name ?bytes]) (disk_write ?name ?bytes d) = (Inl err, d')"
        by (simp add: Let_def)
      with written show ?thesis by (rule Cons.IH)
    qed
  qed
qed

lemma multer_array_rejects:
  assumes "p \<in> set ps" and "0 < max_file_size env"
    and "\<not> fileFilter p \<or> max_file_size env \<le> int (length (part_bytes p))"
  shows "\<exists>err d'. multer_array sfx env filesLeft ps uploaded d = (Inl err, d')"
  using assms
proof (induction ps arbitrary: filesLeft uploaded d)
  case Nil
  then show ?case by simp
next
  case (Cons q qs)
  show ?case
  proof (cases "q = p")
    case True
    with Cons.prems(2,3) show ?thesis by (auto simp: Let_def)
  next
    case False
    with Cons.prems have "p \<in> set qs" by simp
    from Cons.IH [OF this Cons.prems(2,3)] show ?thesis by (auto simp: Let_def)
  qed
qed

text \<open>
  Under a negative size limit the middleware reports no error for any size: the file is
  stored without its bytes and the handler creates its record. The limit of the
  theorem below is therefore a positive one.
\<close>

lemma upload_under_negative_limit:
  "fst (upload_files demo bob ''t1'' [photo] (Some (- 5)) prefixes fresh)
     = Inr [\<lparr>file_id = ''fx'', filename = ''100-7-photo.png'', originalName = ''photo.png'',
             file_path = ''/uploads/todos/100-7-photo.png'', file_size = 0,
             mimeType = ''image/png'', file_createdAt = 50, todoId = ''t1''\<rparr>]
   \<and> disk (snd (upload_files demo bob ''t1'' [photo] (Some (- 5)) prefixes fresh))
     = [(''100-7-photo.png'', []), (''1-receipt.txt'', ''2.50 '')]"
  by code_simp

text \<open>
  C6. Under a positive size limit, when some file of an upload request is refused by
  the file filter or has as many bytes as the limit or more, the request ends with the
  error passed on by the middleware, no file record is created, and every storage
  object that is there afterwards was there before the request, with the same bytes:
  nothing of the batch stays behind. The clearing of the storage is the upload
  middleware's; the handler does not run.
\<close>

theorem upload_batch_all_or_nothing:
  assumes "p \<in> set parts" and "0 < max_file_size env"
    and "\<not> fileFilter p \<or> max_file_size env \<le> int (length (part_bytes p))"
  shows "(\<exists>err. fst (upload_files s u ident parts env sfx g) = Inl (Forwarded err))
       \<and> files (snd (upload_files s u ident parts env sfx g)) = files s
       \<and> todos (snd (upload_files s u ident parts env sfx g)) = todos s
       \<and> set (disk (snd (upload_files s u ident parts env sfx g))) \<subseteq> set (disk s)"
proof -
  from multer_array_rejects [OF assms] obtain err d' where
    m: "multer_array sfx env 5 parts [] (disk s) = (Inl err, d')"
    by blast
  have "\<forall>e \<in> set (disk s). e \<in> set (disk s) \<or> fst e \<in> mf_filename ` set []" by simp
  from this m have "set d' \<subseteq> set (disk s)" by (rule multer_array_error_disk)
  with m show ?thesis by (simp add: upload_files_def)
qed

theorem upload_batch_all_or_nothing_witness:
  "photo \<in> set [memo, photo, plan] \<and> fileFilter photo \<and> 0 < max_file_size (Some 4)
   \<and> max_file_size (Some 4) \<le> int (length (part_bytes photo))
   \<and> upload_files demo bob ''t1'' [memo, photo, plan] (Some 4) prefixes fresh
       = (Inl (Forwarded ''LIMIT_FILE_SIZE''), demo)
   \<and> files (snd (upload_files demo bob ''t1'' [memo, photo, plan] (Some 4) prefixes fresh))
       = files demo
   \<and> set (disk (snd (upload_files demo bob ''t1'' [memo, photo, plan] (Some 4) prefixes fresh)))
       \<subseteq> set (disk demo)
   \<and> tool \<in> set [memo, tool, plan] \<and> \<not> fileFilter tool
   \<and> upload_files demo bob ''t1'' [memo, tool, plan] (Some 4) prefixes fresh
       = (Inl (Forwarded ''File type not allowed''), demo)
   \<and> files (snd (upload_files demo bob ''t1'' [memo, tool, plan] (Some 4) prefixes fresh))
       = files demo
   \<and> fst (upload_files demo bob ''t1'' [memo, plan] (Some 4) prefixes fresh)
       \<noteq> Inl (Forwarded ''LIMIT_FILE_SIZE'')"
proof -
  have m1: "photo \<in> set [memo, photo, plan]" and m2: "tool \<in> set [memo, tool, plan]"
    by simp_all
  have pos: "0 < max_file_size (Some 4)" by code_simp
  have ok: "fileFilter photo" by code_simp
  have big: "max_file_size (Some 4) \<le> int (length (part_bytes photo))" by code_simp
  have bad: "\<not> fileFilter tool" by code_simp
  have r1: "upload_files demo bob ''t1'' [memo, photo, plan] (Some 4) prefixes fresh
              = (Inl (Forwarded ''LIMIT_FILE_SIZE''), demo)"
    by code_simp
  have r2: "upload_files demo bob ''t1'' [memo, tool, plan] (Some 4) prefixes fresh
              = (Inl (Forwarded ''File type not allowed''), demo)"
    by code_simp
  have r3: "fst (upload_files demo bob ''t1'' [memo, plan] (Some 4) prefixes fresh)
              \<noteq> Inl (Forwarded ''LIMIT_FILE_SIZE'')"
    by code_simp
  from big have h1: "\<not> fileFilter photo \<or> max_file_size (Some 4) \<le> int (length (part_bytes photo))"
    by simp
  from bad have h2: "\<not> fileFilter tool \<or> max_file_size (Some 4) \<le> int (length (part_bytes tool))"
    by simp
  from upload_batch_all_or_nothing
         [OF m1 pos h1, where s = demo and u = bob and ident = "''t1''" and sfx = prefixes and g = fresh]
       upload_batch_all_or_nothing
         [OF m2 pos h2, where s = demo and u = bob and ident = "''t1''" and sfx = prefixes and g = fresh]
       m1 m2 pos ok big bad r1 r2 r3
  show ?thesis by simp
qed

end
